theory Spec2Isabelle
  imports Main "HOL-Library.Word"
begin

unbundle bit_operations_syntax

section \<open>startup.c: the vector table and its link-time binding\<close>

text \<open>
  A function symbol is written with the name it has in the C source.
\<close>

type_synonym symbol = string

text \<open>
  An initializer of the array \<open>vector\<close>, as written in the source: the cast
  \<open>(vectFunc)(&_sstack)\<close>, the name of a function, or the literal \<open>0\<close>.
\<close>

datatype vectFunc = AddrOf_sstack | Fn symbol | Zero

text \<open>
  The declarations of startup.c, lines 29 to 64: every one of these names is declared
  \<open>__attribute__((weak, alias("defaultHandler")))\<close>. The list keeps the order of the
  source; each pair is (declared name, alias target).
\<close>

definition weak_aliases :: "(symbol \<times> symbol) list" where
  "weak_aliases =
    [(''nmiHandler'', ''defaultHandler''),
     (''hardFaultHandler'', ''defaultHandler''),
     (''svCallHandler'', ''defaultHandler''),
     (''pendSvHandler'', ''defaultHandler''),
     (''sysTickHandler'', ''defaultHandler''),
     (''timerIrq0'', ''defaultHandler''),
     (''timerIrq1'', ''defaultHandler''),
     (''timerIrq2'', ''defaultHandler''),
     (''timerIrq3'', ''defaultHandler''),
     (''pwmIrqWrap'', ''defaultHandler''),
     (''usbctrlIrq'', ''defaultHandler''),
     (''xipIrq'', ''defaultHandler''),
     (''pio0Irq0'', ''defaultHandler''),
     (''pio0Irq1'', ''defaultHandler''),
     (''pio1Irq0'', ''defaultHandler''),
     (''pio1Irq1'', ''defaultHandler''),
     (''dmaIrq0'', ''defaultHandler''),
     (''dmaIrq1'', ''defaultHandler''),
     (''ioIrqBank0'', ''defaultHandler''),
     (''ioIrqQspi'', ''defaultHandler''),
     (''sioIrqProc0'', ''defaultHandler''),
     (''sioIrqProc1'', ''defaultHandler''),
     (''clocksIrq'', ''defaultHandler''),
     (''spi0Irq'', ''defaultHandler''),
     (''spi1Irq'', ''defaultHandler''),
     (''uart0Irq'', ''defaultHandler''),
     (''uart1Irq'', ''defaultHandler''),
     (''adcIrqFifo'', ''defaultHandler''),
     (''i2c0Irq'', ''defaultHandler''),
     (''i2c1Irq'', ''defaultHandler''),
     (''rtcIrq'', ''defaultHandler'')]"

text \<open>
  The functions that startup.c defines itself, with a body (lines 134 and 150): strong
  definitions.
\<close>

definition startup_strong :: "symbol list" where
  "startup_strong = [''resetHandler'', ''defaultHandler'']"

text \<open>
  The array \<open>vector\<close> of startup.c, lines 74 to 129, initializer by initializer.
\<close>

definition vector :: "vectFunc list" where
  "vector =
    [AddrOf_sstack,
     Fn ''resetHandler'',
     Fn ''nmiHandler'',
     Fn ''hardFaultHandler'',
     Zero,
     Zero,
     Zero,
     Zero,
     Zero,
     Zero,
     Zero,
     Fn ''svCallHandler'',
     Zero,
     Zero,
     Fn ''pendSvHandler'',
     Fn ''sysTickHandler'',
     Fn ''timerIrq0'',
     Fn ''timerIrq1'',
     Fn ''timerIrq2'',
     Fn ''timerIrq3'',
     Fn ''pwmIrqWrap'',
     Fn ''usbctrlIrq'',
     Fn ''xipIrq'',
     Fn ''pio0Irq0'',
     Fn ''pio0Irq1'',
     Fn ''pio1Irq0'',
     Fn ''pio1Irq1'',
     Fn ''dmaIrq0'',
     Fn ''dmaIrq1'',
     Fn ''ioIrqBank0'',
     Fn ''ioIrqQspi'',
     Fn ''sioIrqProc0'',
     Fn ''sioIrqProc1'',
     Fn ''clocksIrq'',
     Fn ''spi0Irq'',
     Fn ''spi1Irq'',
     Fn ''uart0Irq'',
     Fn ''uart1Irq'',
     Fn ''adcIrqFifo'',
     Fn ''i2c0Irq'',
     Fn ''i2c1Irq'',
     Fn ''rtcIrq'',
     Zero,
     Zero,
     Zero,
     Zero,
     Zero,
     Zero]"

subsection \<open>Binding of names to function bodies\<close>

text \<open>
  The body a name is bound to in the image: a function defined in startup.c, or a
  function that the application (the other translation units) defines.
\<close>

datatype impl = Startup symbol | Application symbol

datatype link_error = MultipleDefinition symbol | UndefinedReference symbol

text \<open>
  The meaning of the \<open>weak\<close> and \<open>alias\<close> attributes and of a plain definition. The
  argument \<open>app\<close> lists the functions that the application defines, one entry per
  definition. A name with two strong definitions is an error; a strong definition wins
  over a weak one; a weak alias with no strong definition is the body of its target; a
  name with no definition at all is an error.
\<close>

definition resolve :: "symbol list \<Rightarrow> symbol \<Rightarrow> link_error + impl" where
  "resolve app s =
    (if 1 < count_list (startup_strong @ app) s then Inl (MultipleDefinition s)
     else if s \<in> set startup_strong then Inr (Startup s)
     else if s \<in> set app then Inr (Application s)
     else (case map_of weak_aliases s of
             Some target \<Rightarrow> Inr (Startup target)
           | None \<Rightarrow> Inl (UndefinedReference s)))"

text \<open>
  An entry of the table in the image: the address of the top of the stack (data), the
  address of a function body, or the null pointer.
\<close>

datatype slot = StackTop | Code impl | Null

fun link_entry :: "symbol list \<Rightarrow> vectFunc \<Rightarrow> link_error + slot" where
  "link_entry app AddrOf_sstack = Inr StackTop"
| "link_entry app (Fn s) =
     (case resolve app s of Inl e \<Rightarrow> Inl e | Inr f \<Rightarrow> Inr (Code f))"
| "link_entry app Zero = Inr Null"

fun link_all :: "symbol list \<Rightarrow> vectFunc list \<Rightarrow> link_error + slot list" where
  "link_all app [] = Inr []"
| "link_all app (e # es) =
     (case link_entry app e of
        Inl err \<Rightarrow> Inl err
      | Inr x \<Rightarrow> (case link_all app es of Inl err \<Rightarrow> Inl err | Inr xs \<Rightarrow> Inr (x # xs)))"

text \<open>
  The table of the image. startup.c also refers to \<open>main\<close> (line 68, called at line
  136), which the application has to define.
\<close>

definition link :: "symbol list \<Rightarrow> link_error + slot list" where
  "link app =
    (case resolve app ''main'' of
       Inl e \<Rightarrow> Inl e
     | Inr m \<Rightarrow> link_all app vector)"

text \<open>
  The functions that transmitter.c defines with external linkage (lines 78 and 101;
  \<open>delay\<close> is \<open>static\<close>).
\<close>

definition transmitter_c :: "symbol list" where
  "transmitter_c = [''ioIrqBank0'', ''main'']"

text \<open>
  The indices whose initializer the source writes as \<open>0\<close> with the comment
  \<open>Reserved\<close> (lines 82 to 88, 90, 91 and 123 to 128).
\<close>

definition reserved_slots :: "nat list" where
  "reserved_slots = [4, 5, 6, 7, 8, 9, 10, 12, 13, 42, 43, 44, 45, 46, 47]"

section \<open>The registers that the firmware accesses\<close>

type_synonym u32 = "32 word"

text \<open>
  The memory-mapped registers named in the sources: \<open>RESETS_RESET\<close> and \<open>NVIC_ISER\<close>
  (transmitter.c, lines 106 and 68) and the fields of \<open>struct sio_hw\<close>,
  \<open>struct io_bank0_hw\<close> and \<open>struct pads_bank0_hw\<close> (lines 6 to 40) that the code or
  the behaviour of a register it accesses refers to. An array field carries its index.
\<close>

datatype reg =
    RESETS_RESET
  | NVIC_ISER
  | sio_gpio_out
  | sio_gpio_out_set
  | sio_gpio_out_clr
  | sio_gpio_out_xor
  | sio_gpio_oe
  | sio_gpio_oe_set
  | sio_gpio_oe_clr
  | sio_gpio_oe_xor
  | io_gpio_status nat
  | io_gpio_ctrl nat
  | io_intr nat
  | io_proc0_inte nat
  | io_proc0_intf nat
  | io_proc0_ints nat
  | pads_gpio nat

text \<open>The constants of transmitter.c, lines 59 to 66.\<close>

definition BUTTON_PIN :: nat where "BUTTON_PIN = 16"
definition SPEAKER_PIN :: nat where "SPEAKER_PIN = 21"
definition LED_PIN :: nat where "LED_PIN = 25"
definition GPIO_FUNC_SIO :: u32 where "GPIO_FUNC_SIO = 5"
definition GPIO_INT_EDGE_HIGH :: u32 where "GPIO_INT_EDGE_HIGH = 0x8"
definition IO_BANK0_IRQ :: nat where "IO_BANK0_IRQ = 13"

text \<open>
  What a register access does, as the field comments of the structures describe the
  registers. The state \<open>m\<close> gives the value each register holds.
  \<^item> \<open>proc0_ints\<close> (interrupt status) is read-only and is computed from \<open>intr\<close> (raw
    interrupts), \<open>proc0_inte\<close> (interrupt enable) and \<open>proc0_intf\<close> (interrupt force):
    a bit is set when it is raw and enabled, or forced.
  \<^item> a write to \<open>gpio_out_set\<close>, \<open>gpio_out_clr\<close> or \<open>gpio_out_xor\<close> sets, clears or
    toggles in \<open>gpio_out\<close> the bits written as 1; likewise for \<open>gpio_oe\<close>.
  \<^item> a write to \<open>intr\<close> clears the raw bits written as 1 (transmitter.c, lines 96
    and 130: writing clears the pending interrupts).
  \<^item> a write to \<open>NVIC_ISER\<close> enables the interrupts whose bits are written as 1.
  \<^item> \<open>gpio[n].status\<close> is read-only; every other register holds the value written.
  The hardware is passive in this model: no pin changes and no interrupt arrives while
  the code runs.
\<close>

fun hw_read :: "(reg \<Rightarrow> u32) \<Rightarrow> reg \<Rightarrow> u32" where
  "hw_read m (io_proc0_ints k) = (m (io_intr k) AND m (io_proc0_inte k)) OR m (io_proc0_intf k)"
| "hw_read m r = m r"

fun hw_write :: "reg \<Rightarrow> u32 \<Rightarrow> (reg \<Rightarrow> u32) \<Rightarrow> (reg \<Rightarrow> u32)" where
  "hw_write sio_gpio_out_set v m = m(sio_gpio_out := m sio_gpio_out OR v)"
| "hw_write sio_gpio_out_clr v m = m(sio_gpio_out := m sio_gpio_out AND NOT v)"
| "hw_write sio_gpio_out_xor v m = m(sio_gpio_out := m sio_gpio_out XOR v)"
| "hw_write sio_gpio_oe_set v m = m(sio_gpio_oe := m sio_gpio_oe OR v)"
| "hw_write sio_gpio_oe_clr v m = m(sio_gpio_oe := m sio_gpio_oe AND NOT v)"
| "hw_write sio_gpio_oe_xor v m = m(sio_gpio_oe := m sio_gpio_oe XOR v)"
| "hw_write (io_intr k) v m = m(io_intr k := m (io_intr k) AND NOT v)"
| "hw_write (io_proc0_ints k) v m = m"
| "hw_write (io_gpio_status n) v m = m"
| "hw_write NVIC_ISER v m = m(NVIC_ISER := m NVIC_ISER OR v)"
| "hw_write r v m = m(r := v)"

text \<open>
  What the processor does, in order: a volatile read with the value read, a volatile
  write with the value written, the instructions \<open>nop\<close> and \<open>wfi\<close>, and the call of an
  external function.
\<close>

datatype event = Rd reg u32 | Wr reg u32 | Nop | Wfi | Call symbol

record machine =
  regs :: "reg \<Rightarrow> u32"
  trace :: "event list"

definition emit :: "event \<Rightarrow> machine \<Rightarrow> machine" where
  "emit e s = s\<lparr>trace := trace s @ [e]\<rparr>"

definition rd :: "reg \<Rightarrow> machine \<Rightarrow> u32 \<times> machine" where
  "rd r s = (hw_read (regs s) r, emit (Rd r (hw_read (regs s) r)) s)"

definition wr :: "reg \<Rightarrow> u32 \<Rightarrow> machine \<Rightarrow> machine" where
  "wr r v s = emit (Wr r v) (s\<lparr>regs := hw_write r v (regs s)\<rparr>)"

text \<open>
  The result of running a function that may not return, for a bounded number of
  iterations of each of its unbounded loops: it has returned, or it is still running;
  either way with the state reached so far.
\<close>

datatype outcome = Returned machine | StillRunning machine

fun final :: "outcome \<Rightarrow> machine" where
  "final (Returned s) = s"
| "final (StillRunning s) = s"

text \<open>A state for examples: every register holds 0 and nothing has happened yet.\<close>

definition zero_machine :: machine where
  "zero_machine = \<lparr>regs = (\<lambda>r. 0), trace = []\<rparr>"

section \<open>startup.c: the handlers\<close>

text \<open>
  \<open>defaultHandler\<close>, lines 150 to 155: \<open>while (true) { wfi }\<close>. The condition is the
  constant \<open>true\<close>, so the loop has no exit; \<open>n\<close> bounds the iterations that are run.
\<close>

fun defaultHandler :: "nat \<Rightarrow> machine \<Rightarrow> outcome" where
  "defaultHandler 0 s = StillRunning s"
| "defaultHandler (Suc n) s = defaultHandler n (emit Wfi s)"

text \<open>
  \<open>resetHandler\<close>, lines 134 to 138: \<open>main(); while(true);\<close>. The loop has an empty
  body. \<open>main\<close> is external to startup.c and is a parameter here.
\<close>

fun resetHandler_loop :: "nat \<Rightarrow> machine \<Rightarrow> outcome" where
  "resetHandler_loop 0 s = StillRunning s"
| "resetHandler_loop (Suc n) s = resetHandler_loop n s"

definition resetHandler :: "(nat \<Rightarrow> machine \<Rightarrow> outcome) \<Rightarrow> nat \<Rightarrow> machine \<Rightarrow> outcome" where
  "resetHandler main_fn fuel s =
    (case main_fn fuel (emit (Call ''main'') s) of
       StillRunning t \<Rightarrow> StillRunning t
     | Returned t \<Rightarrow> resetHandler_loop fuel t)"

section \<open>transmitter.c\<close>

text \<open>
  \<open>delay\<close>, lines 71 to 75: \<open>for (volatile uint32_t i = 0; i < count; i++) nop\<close>.
\<close>

function delay_loop :: "u32 \<Rightarrow> u32 \<Rightarrow> machine \<Rightarrow> machine" where
  "delay_loop count i s = (if i < count then delay_loop count (i + 1) (emit Nop s) else s)"
  by pat_completeness auto
termination
proof (relation "measure (\<lambda>(count, i, s). unat count - unat i)")
  show "wf (measure (\<lambda>(count, i, s). unat count - unat i))" by simp
next
  fix count i :: u32 and s :: machine
  assume lt: "i < count"
  then have u: "unat i < unat count" by (simp add: word_less_nat_alt)
  have "unat count < 2 ^ LENGTH(32)" by (rule unsigned_less)
  with u have "unat i + unat (1::u32) < 2 ^ LENGTH(32)" by simp
  then have "unat (i + 1) = unat i + unat (1::u32)" by (simp only: unat_add_lem)
  then have "unat (i + 1) = Suc (unat i)" by simp
  moreover note u
  ultimately show "((count, i + 1, emit Nop s), (count, i, s))
      \<in> measure (\<lambda>(count, i, s). unat count - unat i)" by simp
qed

declare delay_loop.simps [simp del]

definition delay :: "u32 \<Rightarrow> machine \<Rightarrow> machine" where
  "delay count s = delay_loop count 0 s"

text \<open>\<open>ioIrqBank0\<close>, lines 78 to 99.\<close>

definition ioIrqBank0 :: "machine \<Rightarrow> machine" where
  "ioIrqBank0 s =
    (case rd (io_proc0_ints (BUTTON_PIN div 8)) s of
       (v, s1) \<Rightarrow>
         if v AND push_bit (4 * (BUTTON_PIN mod 8)) GPIO_INT_EDGE_HIGH \<noteq> 0 then
           let s2 = wr sio_gpio_out_set (push_bit LED_PIN 1 OR push_bit SPEAKER_PIN 1) s1;
               s3 = delay 100000 s2;
               s4 = wr sio_gpio_out_clr (push_bit LED_PIN 1 OR push_bit SPEAKER_PIN 1) s3
           in wr (io_intr (BUTTON_PIN div 8)) (push_bit (4 * (BUTTON_PIN mod 8)) 0xF) s4
         else s1)"

text \<open>
  \<open>main\<close>, lines 101 to 155, with its loops: the wait for bit 5 of \<open>RESETS_RESET\<close>
  (line 108), the start-up pattern (lines 135 to 142) and the idle loop (lines 152
  to 154).
\<close>

fun main_reset_wait :: "nat \<Rightarrow> machine \<Rightarrow> outcome" where
  "main_reset_wait 0 s = StillRunning s"
| "main_reset_wait (Suc n) s =
    (case rd RESETS_RESET s of
       (v, s1) \<Rightarrow> if v AND push_bit 5 1 \<noteq> 0 then main_reset_wait n s1 else Returned s1)"

function main_pattern_loop :: "int \<Rightarrow> machine \<Rightarrow> machine" where
  "main_pattern_loop i s =
    (if i < 3 then
       let s1 = wr sio_gpio_out_set (push_bit LED_PIN 1 OR push_bit SPEAKER_PIN 1) s;
           s2 = delay 100000 s1;
           s3 = wr sio_gpio_out_clr (push_bit LED_PIN 1 OR push_bit SPEAKER_PIN 1) s2;
           s4 = delay 100000 s3
       in main_pattern_loop (i + 1) s4
     else s)"
  by pat_completeness auto
termination
  by (relation "measure (\<lambda>(i, s). nat (3 - i))") auto

declare main_pattern_loop.simps [simp del]

fun main_idle :: "nat \<Rightarrow> machine \<Rightarrow> outcome" where
  "main_idle 0 s = StillRunning s"
| "main_idle (Suc n) s = main_idle n (emit Wfi s)"

definition main :: "nat \<Rightarrow> machine \<Rightarrow> outcome" where
  "main fuel s =
    (case rd RESETS_RESET s of
       (r, s1) \<Rightarrow>
         (case main_reset_wait fuel (wr RESETS_RESET (r AND NOT (push_bit 5 1)) s1) of
            StillRunning t \<Rightarrow> StillRunning t
          | Returned s2 \<Rightarrow>
              let s3 = wr (io_gpio_ctrl BUTTON_PIN) GPIO_FUNC_SIO s2;
                  s4 = wr sio_gpio_oe_clr (push_bit BUTTON_PIN 1) s3;
                  s5 = wr (pads_gpio BUTTON_PIN) (push_bit 3 1 OR push_bit 6 1) s4;
                  s6 = wr (io_gpio_ctrl LED_PIN) GPIO_FUNC_SIO s5;
                  s7 = wr sio_gpio_oe_set (push_bit LED_PIN 1) s6;
                  s8 = wr (io_gpio_ctrl SPEAKER_PIN) GPIO_FUNC_SIO s7;
                  s9 = wr sio_gpio_oe_set (push_bit SPEAKER_PIN 1) s8;
                  s10 = wr (io_intr (BUTTON_PIN div 8)) (push_bit (4 * (BUTTON_PIN mod 8)) 0xF) s9
              in (case rd (io_proc0_inte (BUTTON_PIN div 8)) s10 of
                    (e, s11) \<Rightarrow>
                      let s12 = wr (io_proc0_inte (BUTTON_PIN div 8))
                                  (e OR push_bit (4 * (BUTTON_PIN mod 8)) GPIO_INT_EDGE_HIGH) s11;
                          s13 = wr NVIC_ISER (push_bit IO_BANK0_IRQ 1) s12;
                          s14 = main_pattern_loop 0 s13;
                          s15 = wr sio_gpio_out_set (push_bit LED_PIN 1) s14;
                          s16 = delay 500000 s15;
                          s17 = wr sio_gpio_out_clr (push_bit LED_PIN 1) s16
                      in main_idle fuel s17)))"

section \<open>The register accesses of a run\<close>


text \<open>The addresses that a sequence of events reads or writes, in order.\<close>

fun addresses :: "event list \<Rightarrow> reg list" where
  "addresses [] = []"
| "addresses (Rd r v # es) = r # addresses es"
| "addresses (Wr r v # es) = r # addresses es"
| "addresses (e # es) = addresses es"



text \<open>
  The plain read-modify-write sequences of a sequence of events: a read of an address
  immediately followed by a write to the same address, which is what \<open>*r &= m\<close> and
  \<open>r |= m\<close> perform on a volatile register. The result lists the addresses so updated.
\<close>

fun plain_rmw :: "event list \<Rightarrow> reg list" where
  "plain_rmw (Rd r v # Wr r' w # es) = (if r = r' then r # plain_rmw es else plain_rmw es)"
| "plain_rmw (e # es) = plain_rmw es"
| "plain_rmw [] = []"

section \<open>Properties of the vector table\<close>

subsection \<open>Auxiliary facts\<close>

lemma weak_all:
  "list_all (\<lambda>(s, d). d = ''defaultHandler'' \<and> s \<notin> set startup_strong) weak_aliases"
  by code_simp

lemma weak_distinct: "distinct (map fst weak_aliases)"
  by code_simp

lemma weak_names:
  assumes "(s, d) \<in> set weak_aliases"
  shows "d = ''defaultHandler''" and "s \<notin> set startup_strong"
    and "map_of weak_aliases s = Some ''defaultHandler''"
proof -
  from weak_all assms show d: "d = ''defaultHandler''" and "s \<notin> set startup_strong"
    by (auto simp: list_all_iff)
  from weak_distinct assms have "map_of weak_aliases s = Some d"
    by (rule map_of_is_SomeI)
  with d show "map_of weak_aliases s = Some ''defaultHandler''" by simp
qed

lemma count_strong_app:
  "s \<notin> set startup_strong \<Longrightarrow> count_list (startup_strong @ app) s = count_list app s"
  by (simp add: count_list_0_iff)

lemma count_one_mem: "count_list xs x = 1 \<Longrightarrow> x \<in> set xs"
  using count_list_0_iff [of xs x] by auto

lemma resolve_weak:
  assumes "(s, d) \<in> set weak_aliases"
  shows "resolve app s =
    (if 1 < count_list app s then Inl (MultipleDefinition s)
     else if s \<in> set app then Inr (Application s)
     else Inr (Startup ''defaultHandler''))"
  using weak_names [OF assms] by (simp add: resolve_def count_strong_app)

lemma link_all_nth:
  "link_all app es = Inr t \<Longrightarrow>
     length t = length es \<and> (\<forall>i<length es. link_entry app (es ! i) = Inr (t ! i))"
proof (induction es arbitrary: t)
  case Nil
  then show ?case by simp
next
  case (Cons e es)
  then show ?case
    by (auto split: sum.splits simp: nth_Cons split: nat.splits)
qed

lemma length_vector: "length vector = 48"
  by (simp add: vector_def)

lemma link_nth:
  "link app = Inr t \<Longrightarrow>
     length t = 48 \<and> (\<forall>i<48. link_entry app (vector ! i) = Inr (t ! i))"
  using length_vector by (auto simp: link_def split: sum.splits dest: link_all_nth)

lemma vector_shape:
  "list_all (\<lambda>i. if i \<in> set reserved_slots then vector ! i = Zero
                  else (\<exists>s \<in> set (map fst weak_aliases). vector ! i = Fn s)) [2..<48]"
  by code_simp

lemma weak_in_vector: "list_all (\<lambda>(s, d). Fn s \<in> set vector) weak_aliases"
  by code_simp

lemma transmitter_links: "link transmitter_c = Inr (projr (link transmitter_c))"
proof -
  have "\<not> isl (link transmitter_c)" by code_simp
  then show ?thesis by (cases "link transmitter_c") auto
qed

subsection \<open>The slots of the table\<close>

text \<open>
  C1, as the source has it. The claim says that no slot other than 0 and 1 is a null
  entry. The source writes \<open>0\<close> at the fifteen reserved indices, so the claim fails
  there, for instance at index 4, both in the array of the source and in the image
  linked with transmitter.c.
\<close>

theorem vector_slot_4_is_null:
  "vector ! 4 = Zero \<and> \<not> isl (link transmitter_c) \<and> projr (link transmitter_c) ! 4 = Null"
  by code_simp

text \<open>
  C1, amended. In every image that links, the table has 48 slots, and every slot from
  index 2 on is the null entry when its index is one of the fifteen reserved ones, and
  otherwise holds the Default Trap (the body of \<open>defaultHandler\<close>) or a handler that the
  application defines.
\<close>

theorem vector_slots_handler_or_reserved:
  assumes "link app = Inr t"
  shows "length t = 48 \<and>
    (\<forall>i<48. 2 \<le> i \<longrightarrow>
       (if i \<in> set reserved_slots then t ! i = Null
        else t ! i = Code (Startup ''defaultHandler'') \<or>
             (\<exists>s \<in> set app. t ! i = Code (Application s))))"
proof -
  from link_nth [OF assms] have len: "length t = 48"
    and e: "\<forall>i<48. link_entry app (vector ! i) = Inr (t ! i)" by simp_all
  have "if i \<in> set reserved_slots then t ! i = Null
        else t ! i = Code (Startup ''defaultHandler'') \<or>
             (\<exists>s \<in> set app. t ! i = Code (Application s))"
    if i: "i < 48" "2 \<le> i" for i
  proof -
    from i have "i \<in> set [2..<48]" by (simp only: set_upt atLeastLessThan_iff)
    with vector_shape have v: "if i \<in> set reserved_slots then vector ! i = Zero
                  else (\<exists>s \<in> set (map fst weak_aliases). vector ! i = Fn s)"
      unfolding list_all_iff by blast
    from e i have l: "link_entry app (vector ! i) = Inr (t ! i)" by simp
    show ?thesis
    proof (cases "i \<in> set reserved_slots")
      case True
      with v l show ?thesis by simp
    next
      case False
      with v obtain s d where sd: "(s, d) \<in> set weak_aliases" and f: "vector ! i = Fn s"
        by auto
      from l f have r:
        "(case resolve app s of Inl x \<Rightarrow> Inl x | Inr g \<Rightarrow> Inr (Code g)) = Inr (t ! i)"
        by simp
      have "t ! i = Code (Startup ''defaultHandler'') \<or>
            s \<in> set app \<and> t ! i = Code (Application s)"
      proof (cases "s \<in> set app")
        case True
        with r show ?thesis
          by (simp add: resolve_weak [OF sd] split: if_splits)
      next
        case False
        with r show ?thesis
          by (simp add: resolve_weak [OF sd] count_list_0_iff [THEN iffD2])
      qed
      with False show ?thesis by auto
    qed
  qed
  with len show ?thesis by simp
qed

theorem vector_slots_handler_or_reserved_witness:
  "\<not> isl (link transmitter_c) \<and> length (projr (link transmitter_c)) = 48 \<and>
   projr (link transmitter_c) ! 4 = Null \<and>
   projr (link transmitter_c) ! 16 = Code (Startup ''defaultHandler'') \<and>
   projr (link transmitter_c) ! 29 = Code (Application ''ioIrqBank0'')"
proof -
  note w = vector_slots_handler_or_reserved [OF transmitter_links]
  have r: "\<not> isl (link transmitter_c)" by code_simp
  from w have "length (projr (link transmitter_c)) = 48" by simp
  moreover have "(4::nat) \<in> set reserved_slots" by code_simp
  with w have "projr (link transmitter_c) ! 4 = Null" by fastforce
  moreover have "projr (link transmitter_c) ! 16 = Code (Startup ''defaultHandler'')"
    by code_simp
  moreover have "projr (link transmitter_c) ! 29 = Code (Application ''ioIrqBank0'')"
    by code_simp
  ultimately show ?thesis using r by simp
qed

text \<open>
  C2. The source writes the address of \<open>_sstack\<close> at index 0 and \<open>resetHandler\<close> at
  index 1, and in every image that links, whatever functions the application defines,
  slot 0 is the stack top (a data address, not a function) and slot 1 is the body of
  \<open>resetHandler\<close> of startup.c, the Boot Sequencer.
\<close>

theorem vector_slot_0_stack_slot_1_reset:
  assumes "link app = Inr t"
  shows "vector ! 0 = AddrOf_sstack \<and> vector ! 1 = Fn ''resetHandler'' \<and>
         t ! 0 = StackTop \<and> t ! 1 = Code (Startup ''resetHandler'')"
proof -
  from link_nth [OF assms] have e: "\<forall>i<48. link_entry app (vector ! i) = Inr (t ! i)" ..
  have v: "vector ! 0 = AddrOf_sstack" "vector ! 1 = Fn ''resetHandler''"
    by (simp_all add: vector_def)
  from e have "link_entry app (vector ! 0) = Inr (t ! 0)" by simp
  with v have 0: "t ! 0 = StackTop" by simp
  from e have "link_entry app (vector ! 1) = Inr (t ! 1)" by simp
  with v have "t ! 1 = Code (Startup ''resetHandler'')"
    by (auto simp: resolve_def startup_strong_def split: sum.splits if_splits)
  with 0 v show ?thesis by simp
qed

theorem vector_slot_0_stack_slot_1_reset_witness:
  "\<not> isl (link transmitter_c) \<and> projr (link transmitter_c) ! 0 = StackTop \<and>
   projr (link transmitter_c) ! 1 = Code (Startup ''resetHandler'')"
proof -
  have r: "\<not> isl (link transmitter_c)" by code_simp
  from vector_slot_0_stack_slot_1_reset [OF transmitter_links] r show ?thesis by simp
qed

text \<open>
  C4. Every name declared at lines 29 to 64 is a weak alias of the one function
  \<open>defaultHandler\<close> and has a slot in \<open>vector\<close>. Such a name resolves to the body of
  \<open>defaultHandler\<close> when the application does not define it, and to the application's
  function when the application defines it exactly once; in an image that links, each
  slot of the name holds that resolution. The trap is one body, the same for every
  name.
\<close>

theorem weak_slot_resolution:
  assumes "(s, d) \<in> set weak_aliases"
  shows "d = ''defaultHandler'' \<and> Fn s \<in> set vector \<and>
    (s \<notin> set app \<longrightarrow> resolve app s = Inr (Startup ''defaultHandler'')) \<and>
    (count_list app s = 1 \<longrightarrow> resolve app s = Inr (Application s)) \<and>
    (\<forall>t i. link app = Inr t \<longrightarrow> i < 48 \<longrightarrow> vector ! i = Fn s \<longrightarrow>
       t ! i = Code (if s \<in> set app then Application s else Startup ''defaultHandler''))"
proof -
  have d: "d = ''defaultHandler''" using weak_names(1) [OF assms] .
  from weak_in_vector assms have v: "Fn s \<in> set vector"
    by (auto simp: list_all_iff)
  have a: "s \<notin> set app \<longrightarrow> resolve app s = Inr (Startup ''defaultHandler'')"
    by (simp add: resolve_weak [OF assms] count_list_0_iff [THEN iffD2])
  have b: "count_list app s = 1 \<longrightarrow> resolve app s = Inr (Application s)"
    by (auto simp: resolve_weak [OF assms] dest: count_one_mem)
  have c: "t ! i = Code (if s \<in> set app then Application s else Startup ''defaultHandler'')"
    if l: "link app = Inr t" and i: "i < 48" and f: "vector ! i = Fn s" for t i
  proof -
    from link_nth [OF l] i have "link_entry app (vector ! i) = Inr (t ! i)" by simp
    with f have "(case resolve app s of Inl x \<Rightarrow> Inl x | Inr g \<Rightarrow> Inr (Code g)) = Inr (t ! i)"
      by simp
    then show ?thesis
      by (cases "s \<in> set app")
        (simp_all add: resolve_weak [OF assms] count_list_0_iff [THEN iffD2] split: if_splits)
  qed
  from d v a b c show ?thesis by blast
qed

theorem weak_slot_resolution_witness:
  "resolve transmitter_c ''timerIrq0'' = Inr (Startup ''defaultHandler'') \<and>
   resolve transmitter_c ''ioIrqBank0'' = Inr (Application ''ioIrqBank0'') \<and>
   projr (link transmitter_c) ! 16 = Code (Startup ''defaultHandler'') \<and>
   projr (link transmitter_c) ! 29 = Code (Application ''ioIrqBank0'')"
proof -
  have a: "(''timerIrq0'', ''defaultHandler'') \<in> set weak_aliases" by code_simp
  have b: "(''ioIrqBank0'', ''defaultHandler'') \<in> set weak_aliases" by code_simp
  have c: "''timerIrq0'' \<notin> set transmitter_c" by code_simp
  have d: "count_list transmitter_c ''ioIrqBank0'' = 1" by code_simp
  have e: "''ioIrqBank0'' \<in> set transmitter_c" by code_simp
  have f: "vector ! 16 = Fn ''timerIrq0''" "vector ! 29 = Fn ''ioIrqBank0''" by code_simp+
  note ta = weak_slot_resolution [OF a, of transmitter_c]
  note tb = weak_slot_resolution [OF b, of transmitter_c]
  from ta c have "resolve transmitter_c ''timerIrq0'' = Inr (Startup ''defaultHandler'')"
    by blast
  moreover from tb d
  have "resolve transmitter_c ''ioIrqBank0'' = Inr (Application ''ioIrqBank0'')"
    by blast
  moreover from ta transmitter_links f(1) c
  have "projr (link transmitter_c) ! 16 = Code (Startup ''defaultHandler'')"
    by fastforce
  moreover from tb transmitter_links f(2) e
  have "projr (link transmitter_c) ! 29 = Code (Application ''ioIrqBank0'')"
    by fastforce
  ultimately show ?thesis by simp
qed

section \<open>Properties of the handlers and of the application\<close>

subsection \<open>The loops in closed form\<close>

lemma delay_loop_trace:
  "delay_loop count i s = s\<lparr>trace := trace s @ replicate (unat count - unat i) Nop\<rparr>"
proof (induction count i s rule: delay_loop.induct)
  case (1 count i s)
  show ?case
  proof (cases "i < count")
    case True
    then have u: "unat i < unat count" by (simp add: word_less_nat_alt)
    have "unat count < 2 ^ LENGTH(32)" by (rule unsigned_less)
    with u have "unat i + unat (1::u32) < 2 ^ LENGTH(32)" by simp
    then have "unat (i + 1) = unat i + unat (1::u32)" by (simp only: unat_add_lem)
    then have "unat (i + 1) = Suc (unat i)" by simp
    with u have k: "unat count - unat i = Suc (unat count - unat (i + 1))" by simp
    from True have "delay_loop count i s = delay_loop count (i + 1) (emit Nop s)"
      by (simp add: delay_loop.simps [of count i s])
    also have "\<dots> = (emit Nop s)\<lparr>trace :=
        trace (emit Nop s) @ replicate (unat count - unat (i + 1)) Nop\<rparr>"
      using True by (rule "1.IH")
    also have "\<dots> = s\<lparr>trace := trace s @ replicate (unat count - unat i) Nop\<rparr>"
      by (simp add: emit_def k)
    finally show ?thesis .
  next
    case False
    then have "unat count - unat i = 0" by (simp add: word_less_nat_alt)
    with False show ?thesis by (simp add: delay_loop.simps [of count i s])
  qed
qed

lemma delay_trace: "delay count s = s\<lparr>trace := trace s @ replicate (unat count) Nop\<rparr>"
  by (simp add: delay_def delay_loop_trace)

lemma defaultHandler_run:
  "defaultHandler n s = StillRunning (s\<lparr>trace := trace s @ replicate n Wfi\<rparr>)"
  by (induction n arbitrary: s) (simp_all add: emit_def replicate_app_Cons_same)

lemma resetHandler_loop_run: "resetHandler_loop n s = StillRunning s"
  by (induction n) simp_all

lemma main_idle_run:
  "main_idle n s = StillRunning (s\<lparr>trace := trace s @ replicate n Wfi\<rparr>)"
  by (induction n arbitrary: s) (simp_all add: emit_def replicate_app_Cons_same)

lemma button_consts:
  "BUTTON_PIN div 8 = 2"
  "push_bit (4 * (BUTTON_PIN mod 8)) GPIO_INT_EDGE_HIGH = 8"
  "push_bit (4 * (BUTTON_PIN mod 8)) (0xF::u32) = 0xF"
  by (simp_all add: BUTTON_PIN_def GPIO_INT_EDGE_HIGH_def)

lemmas handler_unfold =
  ioIrqBank0_def button_consts LED_PIN_def SPEAKER_PIN_def rd_def wr_def emit_def
  delay_trace Let_def

lemma clear_low_nibble_bit3: "((a AND NOT 0xF) AND b) AND (8::u32) = 0"
proof -
  have z: "NOT 0xF AND (8::u32) = 0" by simp
  have "((a AND NOT 0xF) AND b) AND (8::u32) = (a AND b) AND (NOT 0xF AND 8)"
    by (simp only: ac_simps)
  then show ?thesis by (simp only: z and_zero_eq)
qed

lemma reset_bit_cleared: "(r AND - 33) AND 32 = (0::u32)"
proof -
  have "(- 33 :: u32) AND 32 = 0" by simp
  then show ?thesis by (simp only: and.assoc and_zero_eq)
qed

lemma main_run:
  "main (Suc n) s = StillRunning
       (s\<lparr>regs :=
            (regs s)
            (RESETS_RESET := regs s RESETS_RESET AND - 33,
               io_gpio_ctrl 16 := 5, pads_gpio 16 := 72,
               io_gpio_ctrl 25 := 5, io_gpio_ctrl 21 := 5,
               sio_gpio_oe :=
                 (regs s sio_gpio_oe AND - 65537 OR 33554432) OR 2097152,
               io_intr 2 := regs s (io_intr 2) AND - 16,
               io_proc0_inte 2 := regs s (io_proc0_inte 2) OR 8,
               NVIC_ISER := regs s NVIC_ISER OR 8192,
               sio_gpio_out :=
                 ((((regs s sio_gpio_out OR 35651584) AND - 35651585 OR
                    35651584) AND
                   - 35651585 OR
                   35651584) AND
                  - 35651585 OR
                  33554432) AND
                 - 33554433),
            trace :=
              trace s @
              [Rd RESETS_RESET (regs s RESETS_RESET),
               Wr RESETS_RESET (regs s RESETS_RESET AND - 33),
               Rd RESETS_RESET (regs s RESETS_RESET AND - 33),
               Wr (io_gpio_ctrl 16) 5,
               Wr sio_gpio_oe_clr 65536,
               Wr (pads_gpio 16) 72,
               Wr (io_gpio_ctrl 25) 5,
               Wr sio_gpio_oe_set 33554432,
               Wr (io_gpio_ctrl 21) 5,
               Wr sio_gpio_oe_set 2097152,
               Wr (io_intr 2) 15,
               Rd (io_proc0_inte 2) (regs s (io_proc0_inte 2)),
               Wr (io_proc0_inte 2) (regs s (io_proc0_inte 2) OR 8),
               Wr NVIC_ISER 8192,
               Wr sio_gpio_out_set 35651584] @
              replicate 100000 Nop @
              [Wr sio_gpio_out_clr 35651584] @
              replicate 100000 Nop @
              [Wr sio_gpio_out_set 35651584] @
              replicate 100000 Nop @
              [Wr sio_gpio_out_clr 35651584] @
              replicate 100000 Nop @
              [Wr sio_gpio_out_set 35651584] @
              replicate 100000 Nop @
              [Wr sio_gpio_out_clr 35651584] @
              replicate 100000 Nop @
              [Wr sio_gpio_out_set 33554432] @
              replicate 500000 Nop @
              [Wr sio_gpio_out_clr 33554432] @ replicate (Suc n) Wfi\<rparr>)"
  by (simp add: main_def main_idle_run Let_def rd_def reset_bit_cleared
      wr_def emit_def delay_trace LED_PIN_def SPEAKER_PIN_def BUTTON_PIN_def GPIO_FUNC_SIO_def
      GPIO_INT_EDGE_HIGH_def IO_BANK0_IRQ_def
      main_pattern_loop.simps [of 0] main_pattern_loop.simps [of 1]
      main_pattern_loop.simps [of 2] main_pattern_loop.simps [of 3])

lemma irq_bit: "bit (push_bit IO_BANK0_IRQ (1::u32)) k = (k = IO_BANK0_IRQ)"
  unfolding bit_push_bit_iff bit_1_iff by (auto simp: IO_BANK0_IRQ_def possible_bit_word)


lemma outputs_cleared: "(y AND - 35651585) AND 35651584 = (0::u32)"
proof -
  have "(- 35651585 :: u32) AND 35651584 = 0" by simp
  then show ?thesis by (simp only: and.assoc and_zero_eq)
qed

subsection \<open>The Default Trap and the Boot Sequencer\<close>

text \<open>
  C7. \<open>defaultHandler\<close> never returns: however many iterations of its loop are run, it
  is still running. Each iteration executes one \<open>wfi\<close> and nothing else: after \<open>n\<close>
  iterations the trace has grown by exactly \<open>n\<close> \<open>wfi\<close> instructions and no register has
  changed.
\<close>

theorem defaultHandler_waits_forever:
  "defaultHandler n s = StillRunning (s\<lparr>trace := trace s @ replicate n Wfi\<rparr>) \<and>
   (\<forall>t. defaultHandler n s \<noteq> Returned t)"
  by (simp add: defaultHandler_run)

text \<open>
  C3, as the source has it. The claim says that the loop entered when \<open>main\<close> returns is
  a low-power loop. With an entry point that returns at once, three iterations of the
  loop of \<open>resetHandler\<close> execute no \<open>wfi\<close> (the only event is the call of \<open>main\<close>),
  where three iterations of the loop of \<open>defaultHandler\<close> execute three.
\<close>

theorem resetHandler_loop_no_wfi:
  "resetHandler (\<lambda>fuel s. Returned s) 3 zero_machine =
     StillRunning \<lparr>regs = (\<lambda>r. 0), trace = [Call ''main'']\<rparr> \<and>
   Wfi \<notin> set (trace (final (resetHandler (\<lambda>fuel s. Returned s) 3 zero_machine))) \<and>
   defaultHandler 3 zero_machine =
     StillRunning \<lparr>regs = (\<lambda>r. 0), trace = [Wfi, Wfi, Wfi]\<rparr>"
  by (simp add: resetHandler_def zero_machine_def emit_def numeral_3_eq_3)

text \<open>
  C3, amended. \<open>resetHandler\<close> calls the one external entry point \<open>main\<close>, with no
  argument, and never returns. If \<open>main\<close> returns, \<open>resetHandler\<close> stays in its loop
  for any number of iterations, in exactly the state in which \<open>main\<close> returned: the loop
  is an empty busy loop that executes no instruction of its own (no \<open>wfi\<close>), writes no
  register and makes no call.
\<close>

theorem resetHandler_halts_after_main:
  assumes "main_fn fuel (emit (Call ''main'') s) = Returned t"
  shows "resetHandler main_fn fuel s = StillRunning t \<and>
         (\<forall>u. resetHandler main_fn fuel s \<noteq> Returned u)"
  using assms by (simp add: resetHandler_def resetHandler_loop_run)

theorem resetHandler_halts_after_main_witness:
  "resetHandler (\<lambda>fuel s. Returned s) 3 zero_machine =
     StillRunning (emit (Call ''main'') zero_machine)"
  using resetHandler_halts_after_main
    [of "\<lambda>fuel s. Returned s" 3 zero_machine "emit (Call ''main'') zero_machine"]
  by simp

subsection \<open>The edge handler\<close>

text \<open>
  C6. \<open>ioIrqBank0\<close> first reads \<open>proc0_ints[2]\<close> and tests the edge-high bit of
  \<open>BUTTON_PIN\<close> (mask 8). If the bit is set, it then writes the LED and speaker bits to
  \<open>gpio_out_set\<close>, executes the 100000 \<open>nop\<close>s of the delay, writes the same bits to
  \<open>gpio_out_clr\<close> (after which both outputs are low) and writes \<open>intr[2]\<close>. If the bit
  is not set, the read is all it does: no write, no register changes.
\<close>

theorem ioIrqBank0_acts_iff_asserted:
  "(hw_read (regs s) (io_proc0_ints 2) AND 8 \<noteq> 0 \<longrightarrow>
      trace (ioIrqBank0 s) =
        trace s @ [Rd (io_proc0_ints 2) (hw_read (regs s) (io_proc0_ints 2)),
                   Wr sio_gpio_out_set 0x2200000] @
        replicate 100000 Nop @
        [Wr sio_gpio_out_clr 0x2200000, Wr (io_intr 2) 0xF] \<and>
      regs (ioIrqBank0 s) sio_gpio_out AND 0x2200000 = 0) \<and>
   (hw_read (regs s) (io_proc0_ints 2) AND 8 = 0 \<longrightarrow>
      ioIrqBank0 s =
        s\<lparr>trace := trace s @ [Rd (io_proc0_ints 2) (hw_read (regs s) (io_proc0_ints 2))]\<rparr>)"
  by (simp add: handler_unfold outputs_cleared)

theorem ioIrqBank0_acts_iff_asserted_witness:
  "trace (ioIrqBank0 (zero_machine\<lparr>regs := (\<lambda>r. 0)(io_intr 2 := 8, io_proc0_inte 2 := 8)\<rparr>)) =
     [Rd (io_proc0_ints 2) 8, Wr sio_gpio_out_set 0x2200000] @ replicate 100000 Nop @
     [Wr sio_gpio_out_clr 0x2200000, Wr (io_intr 2) 0xF] \<and>
   ioIrqBank0 zero_machine = zero_machine\<lparr>trace := [Rd (io_proc0_ints 2) 0]\<rparr>"
  using ioIrqBank0_acts_iff_asserted
      [of "zero_machine\<lparr>regs := (\<lambda>r. 0)(io_intr 2 := 8, io_proc0_inte 2 := 8)\<rparr>"]
    ioIrqBank0_acts_iff_asserted [of zero_machine]
  by (simp add: zero_machine_def)

text \<open>
  C5, as the source has it. The handler tests one bit of \<open>proc0_ints[2]\<close> (mask 8, the
  edge-high event of \<open>BUTTON_PIN\<close>) but writes the mask \<open>0xF\<close> to \<open>intr[2]\<close>. In the first
  state the edge-low event of the same pin (bit 2) is pending as well, and the handler
  clears it too. In the second state the status bit is forced through \<open>proc0_intf[2]\<close>,
  and it is still asserted when read again after the handler.
\<close>

theorem ioIrqBank0_clears_more_than_tested_bit:
  "hw_read (regs \<lparr>regs = (\<lambda>r. 0)(io_intr 2 := 0xC, io_proc0_inte 2 := 8), trace = []\<rparr>)
      (io_proc0_ints 2) AND 8 \<noteq> 0 \<and>
   regs \<lparr>regs = (\<lambda>r. 0)(io_intr 2 := 0xC, io_proc0_inte 2 := 8), trace = []\<rparr>
      (io_intr 2) AND 4 = 4 \<and>
   regs (ioIrqBank0 \<lparr>regs = (\<lambda>r. 0)(io_intr 2 := 0xC, io_proc0_inte 2 := 8), trace = []\<rparr>)
      (io_intr 2) AND 4 = 0 \<and>
   hw_read (regs \<lparr>regs = (\<lambda>r. 0)(io_intr 2 := 8, io_proc0_inte 2 := 8,
                                  io_proc0_intf 2 := 8), trace = []\<rparr>)
      (io_proc0_ints 2) AND 8 \<noteq> 0 \<and>
   hw_read (regs (ioIrqBank0 \<lparr>regs = (\<lambda>r. 0)(io_intr 2 := 8, io_proc0_inte 2 := 8,
                                  io_proc0_intf 2 := 8), trace = []\<rparr>))
      (io_proc0_ints 2) AND 8 \<noteq> 0"
  by (simp add: handler_unfold)

text \<open>
  C5, amended. When the handler runs with its source asserted, the registers it leaves
  changed are \<open>gpio_out\<close> (LED and speaker bits set, then cleared) and \<open>intr[2]\<close>, where
  it clears the four event bits of \<open>BUTTON_PIN\<close> (mask \<open>0xF\<close>) and no other bit; every
  other register, and so every bit of any other pin, is unchanged. If the source is not
  forced through \<open>proc0_intf[2]\<close>, reading it again after the handler shows it
  deasserted.
\<close>

theorem ioIrqBank0_clears_own_pin:
  assumes "hw_read (regs s) (io_proc0_ints 2) AND 8 \<noteq> 0"
  shows "regs (ioIrqBank0 s) =
           (regs s)(sio_gpio_out := (regs s sio_gpio_out OR 0x2200000) AND NOT 0x2200000,
                    io_intr 2 := regs s (io_intr 2) AND NOT 0xF) \<and>
         (regs s (io_proc0_intf 2) AND 8 = 0 \<longrightarrow>
            hw_read (regs (ioIrqBank0 s)) (io_proc0_ints 2) AND 8 = 0)"
proof -
  from assms have r: "regs (ioIrqBank0 s) =
           (regs s)(sio_gpio_out := (regs s sio_gpio_out OR 0x2200000) AND NOT 0x2200000,
                    io_intr 2 := regs s (io_intr 2) AND NOT 0xF)"
    by (simp add: handler_unfold)
  have "hw_read (regs (ioIrqBank0 s)) (io_proc0_ints 2) AND 8 = 0"
    if f: "regs s (io_proc0_intf 2) AND 8 = 0"
  proof -
    have "hw_read (regs (ioIrqBank0 s)) (io_proc0_ints 2) AND 8 =
       (((regs s (io_intr 2) AND NOT 0xF) AND regs s (io_proc0_inte 2)) AND 8) OR
       (regs s (io_proc0_intf 2) AND 8)"
      by (simp add: r bit.conj_disj_distrib2)
    with f show ?thesis by (simp only: clear_low_nibble_bit3) simp
  qed
  with r show ?thesis by simp
qed

theorem ioIrqBank0_clears_own_pin_witness:
  "regs (ioIrqBank0 \<lparr>regs = (\<lambda>r. 0)(io_intr 2 := 0x88, io_proc0_inte 2 := 8), trace = []\<rparr>) =
     (\<lambda>r. 0)(io_proc0_inte 2 := 8, sio_gpio_out := 0, io_intr 2 := 0x80) \<and>
   hw_read (regs (ioIrqBank0 \<lparr>regs = (\<lambda>r. 0)(io_intr 2 := 0x88, io_proc0_inte 2 := 8),
                               trace = []\<rparr>))
     (io_proc0_ints 2) AND 8 = 0"
  using ioIrqBank0_clears_own_pin
    [of "\<lparr>regs = (\<lambda>r. 0)(io_intr 2 := 0x88, io_proc0_inte 2 := 8), trace = []\<rparr>"]
  by (simp add: fun_upd_twist)

subsection \<open>The interrupt that the application enables\<close>

text \<open>
  C10. Index \<open>16 + IO_BANK0_IRQ\<close> of \<open>vector\<close> names \<open>ioIrqBank0\<close>, which
  transmitter.c defines once, so in the image that slot holds the application's
  handler. The only write of \<open>main\<close> to \<open>NVIC_ISER\<close> is \<open>1 << IO_BANK0_IRQ\<close>, whose only
  set bit is bit \<open>IO_BANK0_IRQ\<close>: \<open>main\<close> enables exactly the interrupt that the table
  dispatches to \<open>ioIrqBank0\<close>.
\<close>

theorem main_enables_irq_of_ioIrqBank0:
  "vector ! (16 + IO_BANK0_IRQ) = Fn ''ioIrqBank0'' \<and>
   count_list transmitter_c ''ioIrqBank0'' = 1 \<and>
   \<not> isl (link transmitter_c) \<and>
   projr (link transmitter_c) ! (16 + IO_BANK0_IRQ) = Code (Application ''ioIrqBank0'') \<and>
   filter (\<lambda>e. \<exists>v. e = Wr NVIC_ISER v)
      (drop (length (trace s)) (trace (final (main (Suc n) s)))) =
     [Wr NVIC_ISER (push_bit IO_BANK0_IRQ 1)] \<and>
   (\<forall>k. bit (push_bit IO_BANK0_IRQ (1::u32)) k = (k = IO_BANK0_IRQ))"
proof -
  have "vector ! (16 + IO_BANK0_IRQ) = Fn ''ioIrqBank0''" by code_simp
  moreover have "count_list transmitter_c ''ioIrqBank0'' = 1" by code_simp
  moreover have "\<not> isl (link transmitter_c)" by code_simp
  moreover have "projr (link transmitter_c) ! (16 + IO_BANK0_IRQ) = Code (Application ''ioIrqBank0'')"
    by code_simp
  moreover have "filter (\<lambda>e. \<exists>v. e = Wr NVIC_ISER v)
      (drop (length (trace s)) (trace (final (main (Suc n) s)))) =
     [Wr NVIC_ISER (push_bit IO_BANK0_IRQ 1)]"
    by (simp add: main_run IO_BANK0_IRQ_def)
  ultimately show ?thesis using irq_bit by simp
qed

subsection \<open>Updates of registers that the application and the handler share\<close>

lemma addresses_Nops [simp]: "addresses (replicate n Nop @ es) = addresses es"
  by (induction n) simp_all

lemma addresses_Wfis [simp]: "addresses (replicate n Wfi) = []"
  by (induction n) simp_all

lemma plain_rmw_Nops [simp]: "plain_rmw (replicate n Nop @ es) = plain_rmw es"
  by (induction n) simp_all

lemma plain_rmw_Wfis [simp]: "plain_rmw (replicate n Wfi) = []"
  by (induction n) simp_all






end
